theory Spec2Isabelle
  imports Complex_Main "HOL-Library.Sublist" "HOL-Library.List_Lexorder"
begin

section \<open>Data model of the DCS dashboard script\<close>

text \<open>
  The script \<^verbatim>\<open>app_streamlit_dcs.py\<close> is a linear pipeline over a pandas table:
  load, derive, filter, aggregate, render. A Python string is a sequence of Unicode code
  points, so it is a list of naturals here; an ASCII literal is written through
  \<open>of_ascii\<close>. A numeric cell is a real number or missing (pandas' NaN is \<open>None\<close>);
  float64 arithmetic is read as exact arithmetic on the reals. In the quoted source the
  accented letters of the column names are written without their accents; the constant
  \<open>col_Area\<close> holds the code points of the real name.
\<close>

type_synonym pystr = "nat list"

definition of_ascii :: "string \<Rightarrow> pystr" where
  "of_ascii s = map of_char s"

type_synonym cell = "real option"

subsection \<open>Reductions of pandas used by the script\<close>

text \<open>
  \<^verbatim>\<open>.sum()\<close> of a boolean Series counts its \<^verbatim>\<open>True\<close> entries.
\<close>

definition count_true :: "bool list \<Rightarrow> nat" where
  "count_true bs = sum_list (map (\<lambda>b. if b then 1 else 0) bs)"

section \<open>Calculated fields: the eNPS score\<close>

text \<open>
  \<^verbatim>\<open>
  def compute_enps(series):
      promotores = (series == 100).sum()
      detractores = (series == -100).sum()
      total = series.notna().sum()
      if total == 0:
          return 0
      return (promotores - detractores) / total * 100
  \<close>
  A missing entry compares unequal to every number and is not counted by \<^verbatim>\<open>notna\<close>.
\<close>

definition promotores :: "cell list \<Rightarrow> nat" where
  "promotores series = count_true (map (\<lambda>v. v = Some 100) series)"

definition detractores :: "cell list \<Rightarrow> nat" where
  "detractores series = count_true (map (\<lambda>v. v = Some (- 100)) series)"

definition total_notna :: "cell list \<Rightarrow> nat" where
  "total_notna series = count_true (map (\<lambda>v. v \<noteq> None) series)"

definition compute_enps :: "cell list \<Rightarrow> real" where
  "compute_enps series =
     (if total_notna series = 0 then 0
      else real_of_int (int (promotores series) - int (detractores series))
             / real (total_notna series) * 100)"

text \<open>
  The score as the specification words it: P, D and T are numbers of rows.
\<close>

definition enps_spec :: "cell list \<Rightarrow> real" where
  "enps_spec series =
     (let P = length (filter (\<lambda>v. v = Some 100) series);
          D = length (filter (\<lambda>v. v = Some (- 100)) series);
          T = length (filter (\<lambda>v. v \<noteq> None) series)
      in if T > 0 then (real P - real D) / real T * 100 else 0)"

section \<open>Data loading\<close>

text \<open>
  \<^verbatim>\<open>
  def load_data(file):
      raw = pd.read_excel(file, sheet_name="Raw")
      raw.columns = [c.strip().replace(" ", "") if c != "Area" and c != "Nivel" else c
                     for c in raw.columns]
      return raw
  \<close>
  \<^verbatim>\<open>str.strip()\<close> removes the leading and trailing characters for which
  \<^verbatim>\<open>str.isspace\<close> holds; \<^verbatim>\<open>replace(" ", "")\<close> removes every U+0020.
\<close>

definition is_space :: "nat \<Rightarrow> bool" where
  "is_space c =
     ((9 \<le> c \<and> c \<le> 13) \<or> (28 \<le> c \<and> c \<le> 32) \<or> c = 133 \<or> c = 160 \<or> c = 5760
      \<or> (8192 \<le> c \<and> c \<le> 8202) \<or> c = 8232 \<or> c = 8233 \<or> c = 8239 \<or> c = 8287
      \<or> c = 12288)"

definition strip :: "pystr \<Rightarrow> pystr" where
  "strip s = rev (dropWhile is_space (rev (dropWhile is_space s)))"

definition replace_space :: "pystr \<Rightarrow> pystr" where
  "replace_space s = filter (\<lambda>c. c \<noteq> 32) s"

definition col_Area :: pystr where
  "col_Area = [193, 114, 101, 97]"

definition col_Nivel :: pystr where
  "col_Nivel = of_ascii ''Nivel''"

definition normalize_column :: "pystr \<Rightarrow> pystr" where
  "normalize_column c =
     (if c \<noteq> col_Area \<and> c \<noteq> col_Nivel then replace_space (strip c) else c)"

text \<open>
  One row of the sheet holds the cells under the seven columns the script reads: the two
  categorical attributes (a string, or missing) and five numeric cells. The headers of the
  sheet are kept beside the rows: the script finds a column by its header, and a lookup
  of a header that the sheet lacks raises. A sheet in which the header of a dimension or
  of eNPS occurs more than once is outside this model: the row has one cell for each.
\<close>

record response =
  Area :: "pystr option"
  Nivel :: "pystr option"
  Agilidad :: cell
  Empoderamiento :: cell
  MentalidadDatos :: cell
  CorajeInnovar :: cell
  eNPS :: cell

record sheet =
  columns :: "pystr list"
  rows :: "response list"

datatype source = UploadedFile "nat list" | FilePath pystr

datatype py_exception =
    FileNotFoundError
  | BadZipFile
  | WorksheetNotFound
  | KeyError
  | AttributeError

text \<open>
  \<^verbatim>\<open>pd.read_excel\<close> is the environment: a function from the source to the sheet
  named Raw, or to the exception it raised.
\<close>

type_synonym reader = "source \<Rightarrow> py_exception + sheet"

definition load_data :: "reader \<Rightarrow> source \<Rightarrow> py_exception + sheet" where
  "load_data read_excel file =
     (case read_excel file of
        Inl e \<Rightarrow> Inl e
      | Inr raw \<Rightarrow> Inr (raw\<lparr>columns := map normalize_column (columns raw)\<rparr>))"

definition default_path :: pystr where
  "default_path = of_ascii ''Dataset_DCS_ReidCo.xlsx''"

text \<open>
  \<^verbatim>\<open>
  if uploaded:
      df = load_data(uploaded)
  else:
      df = load_data(default_path)
  \<close>
  The uploader returns \<^verbatim>\<open>None\<close> or a file object, which is truthy.
\<close>

definition load :: "reader \<Rightarrow> nat list option \<Rightarrow> py_exception + sheet" where
  "load read_excel uploaded =
     (case uploaded of
        Some f \<Rightarrow> load_data read_excel (UploadedFile f)
      | None \<Rightarrow> load_data read_excel (FilePath default_path))"

section \<open>Calculated fields: PromedioGeneral\<close>

text \<open>
  The mean of pandas skips missing values (\<^verbatim>\<open>skipna=True\<close>): the values are summed
  with each missing one replaced by 0, the sum is divided by the number of values
  present, and the result is missing when that number is 0.
\<close>

definition nansum :: "cell list \<Rightarrow> real" where
  "nansum vs = sum_list (map (\<lambda>v. case v of None \<Rightarrow> 0 | Some x \<Rightarrow> x) vs)"

definition nanmean :: "cell list \<Rightarrow> cell" where
  "nanmean vs =
     (let n = count_true (map (\<lambda>v. v \<noteq> None) vs)
      in if n = 0 then None else Some (nansum vs / real n))"

record drow = response +
  PromedioGeneral :: cell

text \<open>
  \<^verbatim>\<open>df["PromedioGeneral"] =
      df[["Agilidad","Empoderamiento","MentalidadDatos","CorajeInnovar"]].mean(axis=1)\<close>
\<close>

definition derive_row :: "response \<Rightarrow> drow" where
  "derive_row r =
     \<lparr>Area = Area r, Nivel = Nivel r, Agilidad = Agilidad r,
      Empoderamiento = Empoderamiento r, MentalidadDatos = MentalidadDatos r,
      CorajeInnovar = CorajeInnovar r, eNPS = eNPS r,
      PromedioGeneral =
        nanmean [Agilidad r, Empoderamiento r, MentalidadDatos r, CorajeInnovar r]\<rparr>"

definition derive :: "response list \<Rightarrow> drow list" where
  "derive df = map derive_row df"

text \<open>
  The mean as the specification words it: the mean of the values that are present.
\<close>

definition mean_of_present :: "cell list \<Rightarrow> cell" where
  "mean_of_present vs =
     (let xs = List.map_filter id vs
      in if xs = [] then None else Some (sum_list xs / real (length xs)))"

section \<open>Filters\<close>

definition todas :: pystr where
  "todas = of_ascii ''(Todas)''"

definition todos :: pystr where
  "todos = of_ascii ''(Todos)''"

text \<open>
  \<^verbatim>\<open>areas = ["(Todas)"] + sorted(df["Area"].dropna().unique().tolist())\<close>
\<close>

definition areas :: "drow list \<Rightarrow> pystr list" where
  "areas df = todas # sort (remdups (List.map_filter Area df))"

definition niveles :: "drow list \<Rightarrow> pystr list" where
  "niveles df = todos # sort (remdups (List.map_filter Nivel df))"

text \<open>
  \<^verbatim>\<open>
  df_f = df.copy()
  if area_sel != "(Todas)":
      df_f = df_f[df_f["Area"] == area_sel]
  if nivel_sel != "(Todos)":
      df_f = df_f[df_f["Nivel"] == nivel_sel]
  \<close>
  A missing attribute equals no selected value.
\<close>

definition filter_area :: "pystr \<Rightarrow> drow list \<Rightarrow> drow list" where
  "filter_area area_sel df_f =
     (if area_sel \<noteq> todas then filter (\<lambda>r. Area r = Some area_sel) df_f else df_f)"

definition filter_nivel :: "pystr \<Rightarrow> drow list \<Rightarrow> drow list" where
  "filter_nivel nivel_sel df_f =
     (if nivel_sel \<noteq> todos then filter (\<lambda>r. Nivel r = Some nivel_sel) df_f else df_f)"

definition apply_filters :: "drow list \<Rightarrow> pystr \<Rightarrow> pystr \<Rightarrow> drow list" where
  "apply_filters df area_sel nivel_sel = filter_nivel nivel_sel (filter_area area_sel df)"

section \<open>Aggregation and rendering\<close>

text \<open>
  \<^verbatim>\<open>enps_global = compute_enps(df_f["eNPS"]) if len(df_f) else 0\<close>
\<close>

definition enps_global :: "drow list \<Rightarrow> real" where
  "enps_global df_f = (if df_f \<noteq> [] then compute_enps (map eNPS df_f) else 0)"

definition radar_dims :: "(pystr \<times> (drow \<Rightarrow> cell)) list" where
  "radar_dims =
     [(of_ascii ''Agilidad'', Agilidad), (of_ascii ''Empoderamiento'', Empoderamiento),
      (of_ascii ''MentalidadDatos'', MentalidadDatos),
      (of_ascii ''CorajeInnovar'', CorajeInnovar)]"

text \<open>
  \<^verbatim>\<open>vals = [df_f[col].mean() if len(df_f) else 0 for col in radar_dims]\<close>
\<close>

definition vals :: "drow list \<Rightarrow> cell list" where
  "vals df_f =
     map (\<lambda>(name, col). if df_f \<noteq> [] then nanmean (map col df_f) else Some 0) radar_dims"

text \<open>
  \<^verbatim>\<open>df_f.groupby("Area")[radar_dims].mean().reset_index()\<close>: one group for each
  distinct non-missing Area, in sorted order, with the mean of each dimension over the
  rows of the group.
\<close>

type_synonym grouped = "(pystr \<times> cell list) list"

definition groupby_mean :: "drow list \<Rightarrow> grouped" where
  "groupby_mean df_f =
     map (\<lambda>k. (k, map (\<lambda>(name, col). nanmean (map col (filter (\<lambda>r. Area r = Some k) df_f)))
                  radar_dims))
       (sort (remdups (List.map_filter Area df_f)))"

text \<open>
  \<^verbatim>\<open>melt(id_vars="Area", var_name="Dimension", value_name="Promedio")\<close>: for each
  dimension in turn, one (Area, Dimension, Promedio) triple for each group.
\<close>

definition melt :: "grouped \<Rightarrow> (pystr \<times> pystr \<times> cell) list" where
  "melt g =
     concat (map (\<lambda>i. map (\<lambda>(k, means). (k, fst (radar_dims ! i), means ! i)) g)
               [0..<length radar_dims])"

datatype chart =
    Scatterpolar "cell list" "pystr list"
  | Bar "(pystr \<times> pystr \<times> cell) list"
  | DensityHeatmap "(pystr \<times> pystr \<times> cell) list"
  | Scatter "(pystr \<times> nat \<times> nat \<times> pystr) list"

datatype kpi = ENPSGlobal | PromedioGeneralKpi | NRespuestas

datatype kpi_value = Num cell | Fixed pystr | Count nat

datatype widget =
    Title
  | Caption
  | SidebarHeader
  | FileUploader
  | Error pystr
  | Selectbox "pystr list"
  | Metric kpi kpi_value
  | Markdown
  | PlotlyChart chart
  | Info pystr
  | Dataframe "drow list"

definition radar_fig :: "drow list \<Rightarrow> chart" where
  "radar_fig df_f =
     Scatterpolar (vals df_f @ [vals df_f ! 0])
       (map fst radar_dims @ [map fst radar_dims ! 0])"

text \<open>
  \<^verbatim>\<open>
  bars_df = df_f.groupby("Area")[radar_dims].mean().reset_index() if len(df_f)
            else pd.DataFrame(columns=["Area"]+radar_dims)
  bars_fig = px.bar(bars_df.melt(...), ...)
  \<close>
\<close>

definition bars_df :: "drow list \<Rightarrow> grouped" where
  "bars_df df_f = (if df_f \<noteq> [] then groupby_mean df_f else [])"

definition bars_fig :: "drow list \<Rightarrow> chart" where
  "bars_fig df_f = Bar (melt (bars_df df_f))"

definition bars_widget :: "drow list \<Rightarrow> widget" where
  "bars_widget df_f = PlotlyChart (bars_fig df_f)"

definition no_heatmap_msg :: pystr where
  "no_heatmap_msg =
     of_ascii ''No hay datos para construir el heatmap con los filtros aplicados.''"

text \<open>
  \<^verbatim>\<open>
  hm_df = df_f.groupby("Area")[radar_dims].mean().reset_index()
  if not hm_df.empty:
      ...
      st.plotly_chart(heatmap_fig, use_container_width=True)
  else:
      st.info("No hay datos para construir el heatmap con los filtros aplicados.")
  \<close>
\<close>

definition hm_df :: "drow list \<Rightarrow> grouped" where
  "hm_df df_f = groupby_mean df_f"

definition heatmap_widget :: "drow list \<Rightarrow> widget" where
  "heatmap_widget df_f =
     (if hm_df df_f \<noteq> [] then PlotlyChart (DensityHeatmap (melt (hm_df df_f)))
      else Info no_heatmap_msg)"

text \<open>
  The static action matrix: each initiative with its Urgencia (x), its Impacto (y) and its
  category. The labels are written without their accents.
\<close>

definition rag_fig :: chart where
  "rag_fig =
     Scatter
       [(of_ascii ''Daily Learning Nugget'', 5, 5, of_ascii ''Quick Win''),
        (of_ascii ''Celula Agil Piloto'', 3, 4, of_ascii ''180 dias''),
        (of_ascii ''Academia de Datos'', 2, 5, of_ascii ''365 dias''),
        (of_ascii ''Incentivos Digitales'', 4, 4, of_ascii ''90-365 dias''),
        (of_ascii ''Gobernanza DCS'', 2, 5, of_ascii ''Gobernanza'')]"

text \<open>
  A widget that stands in place of a chart to say that there is no data.
\<close>

fun is_placeholder :: "widget \<Rightarrow> bool" where
  "is_placeholder (Info m) = True"
| "is_placeholder w = False"

fun is_data_widget :: "widget \<Rightarrow> bool" where
  "is_data_widget (Metric k v) = True"
| "is_data_widget (PlotlyChart c) = True"
| "is_data_widget (Dataframe d) = True"
| "is_data_widget w = False"

text \<open>
  The widgets of one run after a successful load, in the order the script emits them.
  The two selections are inputs of the run: Streamlit returns one of the options of each
  select box.
\<close>

definition kpi_promedio :: "drow list \<Rightarrow> kpi_value" where
  "kpi_promedio df_f =
     (if df_f \<noteq> [] then Num (nanmean (map PromedioGeneral df_f))
      else Fixed (of_ascii ''0.00''))"

definition render :: "drow list \<Rightarrow> pystr \<Rightarrow> pystr \<Rightarrow> widget list" where
  "render df area_sel nivel_sel =
     (let df_f = apply_filters df area_sel nivel_sel
      in [Selectbox (areas df), Selectbox (niveles df),
          Metric ENPSGlobal (Num (Some (enps_global df_f))),
          Metric PromedioGeneralKpi (kpi_promedio df_f),
          Metric NRespuestas (Count (length df_f)),
          Markdown,
          PlotlyChart (radar_fig df_f),
          bars_widget df_f,
          heatmap_widget df_f,
          PlotlyChart rag_fig,
          Dataframe df_f,
          Caption])"

definition load_error_msg :: pystr where
  "load_error_msg =
     of_ascii ''No se pudo leer el dataset. Sube el archivo Dataset_DCS_ReidCo.xlsx en la barra lateral.''"

definition col_eNPS :: pystr where
  "col_eNPS = of_ascii ''eNPS''"

text \<open>
  A run ends in one of three ways: halted by \<^verbatim>\<open>st.stop()\<close>, run to the last
  line, or ended by an exception that nothing catches. Each carries the widgets emitted
  until then.
\<close>

datatype outcome =
    Stopped "widget list"
  | Finished "widget list"
  | Raised py_exception "widget list"

text \<open>
  The script after the load, which is outside the \<^verbatim>\<open>try\<close>. It finds its columns
  by header, in this order:
  \<^item> \<^verbatim>\<open>df[["Agilidad","Empoderamiento","MentalidadDatos","CorajeInnovar"]]\<close>
    raises KeyError when one of the four headers is absent;
  \<^item> \<^verbatim>\<open>df["Area"].dropna().unique()\<close> raises KeyError when the header is
    absent, and AttributeError when it occurs more than once (the lookup is then a frame,
    which has no \<^verbatim>\<open>unique\<close>); the same for Nivel;
  \<^item> \<^verbatim>\<open>compute_enps(df_f["eNPS"]) if len(df_f) else 0\<close> looks eNPS up only for
    a non-empty view, after the two select boxes are emitted.
\<close>

definition dashboard :: "widget list \<Rightarrow> sheet \<Rightarrow> pystr \<Rightarrow> pystr \<Rightarrow> outcome" where
  "dashboard page df area_sel nivel_sel =
     (if \<not> list_all (\<lambda>c. c \<in> set (columns df)) (map fst radar_dims)
        then Raised KeyError page
      else if col_Area \<notin> set (columns df) then Raised KeyError page
      else if 1 < count_list (columns df) col_Area then Raised AttributeError page
      else if col_Nivel \<notin> set (columns df) then Raised KeyError page
      else if 1 < count_list (columns df) col_Nivel then Raised AttributeError page
      else if apply_filters (derive (rows df)) area_sel nivel_sel \<noteq> []
              \<and> col_eNPS \<notin> set (columns df)
        then Raised KeyError
               (page @ [Selectbox (areas (derive (rows df))),
                        Selectbox (niveles (derive (rows df)))])
      else Finished (page @ render (derive (rows df)) area_sel nivel_sel))"

text \<open>
  \<^verbatim>\<open>
  try:
      ...
  except Exception as e:
      st.error("No se pudo leer el dataset. ...")
      st.stop()
  \<close>
  \<^verbatim>\<open>st.stop()\<close> ends the run: nothing after it is emitted.
\<close>

definition script :: "reader \<Rightarrow> nat list option \<Rightarrow> pystr \<Rightarrow> pystr \<Rightarrow> outcome" where
  "script read_excel uploaded area_sel nivel_sel =
     (let page = [Title, Caption, SidebarHeader, FileUploader]
      in case load read_excel uploaded of
           Inl e \<Rightarrow> Stopped (page @ [Error load_error_msg])
         | Inr df \<Rightarrow> dashboard page df area_sel nivel_sel)"

section \<open>Example data\<close>

text \<open>
  The three-row scenario of the specification (Area A, A, B; eNPS 100, -100, 0; Agilidad
  4, 2, 5; the other dimensions 3), with a Nivel for each row and the seven headers, some
  of them written with spaces.
\<close>

definition example_rows :: "response list" where
  "example_rows =
     [\<lparr>Area = Some (of_ascii ''A''), Nivel = Some (of_ascii ''Jr''), Agilidad = Some 4,
       Empoderamiento = Some 3, MentalidadDatos = Some 3, CorajeInnovar = Some 3,
       eNPS = Some 100\<rparr>,
      \<lparr>Area = Some (of_ascii ''A''), Nivel = Some (of_ascii ''Sr''), Agilidad = Some 2,
       Empoderamiento = Some 3, MentalidadDatos = Some 3, CorajeInnovar = Some 3,
       eNPS = Some (- 100)\<rparr>,
      \<lparr>Area = Some (of_ascii ''B''), Nivel = Some (of_ascii ''Jr''), Agilidad = Some 5,
       Empoderamiento = Some 3, MentalidadDatos = Some 3, CorajeInnovar = Some 3,
       eNPS = Some 0\<rparr>]"

definition example_sheet :: sheet where
  "example_sheet =
     \<lparr>columns =
        [col_Area, col_Nivel, of_ascii ''Agilidad '', of_ascii ''Empoderamiento'',
         of_ascii ''Mentalidad Datos'', of_ascii '' CorajeInnovar'', of_ascii ''eNPS''],
      rows = example_rows\<rparr>"

definition example_reader :: reader where
  "example_reader src =
     (case src of UploadedFile f \<Rightarrow> Inl BadZipFile | FilePath p \<Rightarrow> Inr example_sheet)"

section \<open>Properties\<close>

lemma count_true_filter: "count_true (map p xs) = length (filter p xs)"
  by (induction xs) (simp_all add: count_true_def)

lemma total_notna_replicate: "total_notna (replicate n None) = 0"
  by (induction n) (simp_all add: total_notna_def count_true_def)

text \<open>
  Claim C1. For every series of eNPS values the score is (P - D) / T * 100, with P the
  number of entries equal to 100, D the number equal to -100 and T the number of
  non-missing entries, when T is positive, and 0 when T is 0; the series
  [100, 100, -100, 0, missing] scores 25 and an all-missing series scores 0.
\<close>

theorem compute_enps_formula:
  "compute_enps s = enps_spec s
   \<and> compute_enps [Some 100, Some 100, Some (- 100), Some 0, None] = 25
   \<and> compute_enps (replicate n None) = 0"
proof -
  have "compute_enps s = enps_spec s"
    by (simp add: compute_enps_def enps_spec_def promotores_def detractores_def
        total_notna_def count_true_filter)
  moreover have "compute_enps [Some 100, Some 100, Some (- 100), Some 0, None] = 25"
    by (simp add: compute_enps_def promotores_def detractores_def total_notna_def count_true_def)
  moreover have "compute_enps (replicate n None) = 0"
    by (simp add: compute_enps_def total_notna_replicate)
  ultimately show ?thesis by simp
qed

theorem compute_enps_formula_witness:
  "compute_enps [Some 100, Some 0, None] = enps_spec [Some 100, Some 0, None]
   \<and> enps_spec [Some 100, Some 0, None] = 50"
  using compute_enps_formula [of "[Some 100, Some 0, None]" 0]
  by (simp add: enps_spec_def)

subsection \<open>Bounds of the eNPS score\<close>

lemma counts_le: "promotores s + detractores s \<le> total_notna s"
  unfolding promotores_def detractores_def total_notna_def count_true_filter
  by (induction s) auto

lemma compute_enps_bounds: "- 100 \<le> compute_enps s \<and> compute_enps s \<le> 100"
proof (cases "total_notna s = 0")
  case True
  then show ?thesis by (simp add: compute_enps_def)
next
  case False
  define q where
    "q = real_of_int (int (promotores s) - int (detractores s)) / real (total_notna s)"
  have T: "0 < real (total_notna s)" using False by simp
  have le: "promotores s + detractores s \<le> total_notna s" by (rule counts_le)
  have up: "real_of_int (int (promotores s) - int (detractores s)) \<le> real (total_notna s)"
    using le by simp
  have lo: "- real (total_notna s) \<le> real_of_int (int (promotores s) - int (detractores s))"
    using le by simp
  have q1: "q \<le> 1" unfolding q_def using up T by (simp add: divide_le_eq)
  have q2: "- 1 \<le> q" unfolding q_def using lo T by (simp add: le_divide_eq)
  have "compute_enps s = q * 100"
    using False by (simp only: compute_enps_def q_def if_False)
  then show ?thesis using q1 q2 by simp
qed

lemma other_entry_counts:
  "x \<noteq> 100 \<Longrightarrow> x \<noteq> - 100 \<Longrightarrow>
     promotores (Some x # s) = promotores s \<and> detractores (Some x # s) = detractores s
     \<and> total_notna (Some x # s) = Suc (total_notna s)"
  by (simp add: promotores_def detractores_def total_notna_def count_true_def)

text \<open>
  Claim C9. For every series the eNPS score lies in the closed interval from -100 to 100:
  a non-missing entry other than 100 and -100 (50, say) is counted in the total T and in
  neither P nor D, so P + D is at most T.
\<close>

theorem compute_enps_range:
  "promotores s + detractores s \<le> total_notna s
   \<and> - 100 \<le> compute_enps s \<and> compute_enps s \<le> 100
   \<and> (x \<noteq> 100 \<and> x \<noteq> - 100 \<longrightarrow>
        promotores (Some x # s) = promotores s \<and> detractores (Some x # s) = detractores s
        \<and> total_notna (Some x # s) = Suc (total_notna s))"
  using counts_le [of s] compute_enps_bounds [of s] other_entry_counts [of x s] by blast

theorem compute_enps_range_witness:
  "(50::real) \<noteq> 100 \<and> (50::real) \<noteq> - 100
   \<and> promotores [Some 50, Some 100] = 1 \<and> detractores [Some 50, Some 100] = 0
   \<and> total_notna [Some 50, Some 100] = 2 \<and> compute_enps [Some 50, Some 100] = 50
   \<and> compute_enps [Some 100] \<le> 100"
  using compute_enps_range [of "[Some 100]" 50]
  by (simp add: compute_enps_def promotores_def detractores_def total_notna_def count_true_def)

subsection \<open>The derived column\<close>

lemma count_present:
  "count_true (map (\<lambda>v. v \<noteq> None) vs) = length (List.map_filter id vs)"
  by (induction vs) (auto simp: count_true_def List.map_filter_simps split: option.splits)

lemma nansum_present: "nansum vs = sum_list (List.map_filter id vs)"
  by (induction vs) (auto simp: nansum_def List.map_filter_simps split: option.splits)

lemma nanmean_mean_of_present: "nanmean vs = mean_of_present vs"
  by (simp add: nanmean_def mean_of_present_def count_present nansum_present Let_def
      del: not_None_eq)

text \<open>
  Claim C2. For every row the derived column PromedioGeneral is the mean of the row's
  non-missing values among Agilidad, Empoderamiento, MentalidadDatos and CorajeInnovar;
  missing values are left out of numerator and denominator, and a row with all four
  missing gets a missing PromedioGeneral, not 0. The dimensions [5, 3, missing, 1] give 3.
\<close>

theorem promedio_general_row_mean:
  "PromedioGeneral (derive_row r) =
     mean_of_present [Agilidad r, Empoderamiento r, MentalidadDatos r, CorajeInnovar r]
   \<and> map PromedioGeneral (derive df) =
       map (\<lambda>r. mean_of_present
                  [Agilidad r, Empoderamiento r, MentalidadDatos r, CorajeInnovar r]) df
   \<and> PromedioGeneral (derive_row \<lparr>Area = a, Nivel = n, Agilidad = Some 5,
         Empoderamiento = Some 3, MentalidadDatos = None, CorajeInnovar = Some 1,
         eNPS = e\<rparr>) = Some 3
   \<and> PromedioGeneral (derive_row \<lparr>Area = a, Nivel = n, Agilidad = None,
         Empoderamiento = None, MentalidadDatos = None, CorajeInnovar = None,
         eNPS = e\<rparr>) = None"
proof -
  have row: "PromedioGeneral (derive_row r) =
      mean_of_present [Agilidad r, Empoderamiento r, MentalidadDatos r, CorajeInnovar r]"
    for r
    by (simp add: derive_row_def nanmean_mean_of_present)
  have col: "map PromedioGeneral (derive df) =
      map (\<lambda>r. mean_of_present
                 [Agilidad r, Empoderamiento r, MentalidadDatos r, CorajeInnovar r]) df"
    by (simp add: derive_def row)
  have ex1: "PromedioGeneral (derive_row \<lparr>Area = a, Nivel = n, Agilidad = Some 5,
         Empoderamiento = Some 3, MentalidadDatos = None, CorajeInnovar = Some 1,
         eNPS = e\<rparr>) = Some 3"
    by (simp add: derive_row_def nanmean_def nansum_def count_true_def)
  have ex2: "PromedioGeneral (derive_row \<lparr>Area = a, Nivel = n, Agilidad = None,
         Empoderamiento = None, MentalidadDatos = None, CorajeInnovar = None,
         eNPS = e\<rparr>) = None"
    by (simp add: derive_row_def nanmean_def nansum_def count_true_def)
  show ?thesis using row col ex1 ex2 by simp
qed

theorem promedio_general_row_mean_witness:
  "map PromedioGeneral (derive example_rows) = [Some (13 / 4), Some (11 / 4), Some (7 / 2)]"
  using promedio_general_row_mean [of "hd example_rows" example_rows None None None]
  by (simp add: example_rows_def mean_of_present_def List.map_filter_simps)

subsection \<open>The filters\<close>

lemma apply_filters_both:
  "X \<noteq> todas \<Longrightarrow> Y \<noteq> todos \<Longrightarrow>
     apply_filters df X Y = filter (\<lambda>r. Area r = Some X \<and> Nivel r = Some Y) df"
  by (simp add: apply_filters_def filter_area_def filter_nivel_def conj_commute)

lemma apply_filters_all: "apply_filters df todas todos = df"
  by (simp add: apply_filters_def filter_area_def filter_nivel_def)

lemma apply_filters_subseq: "subseq (apply_filters df X Y) df"
  by (auto simp add: apply_filters_def filter_area_def filter_nivel_def
      intro: subseq_order.trans [OF subseq_filter_left subseq_filter_left])

text \<open>
  Claim C5. For every dataset and every pair of active filter values (area X, nivel Y)
  the filtered view holds exactly the rows whose Area equals X and whose Nivel equals Y,
  as a subsequence in the original order; filtering by Area and then by Nivel gives the
  same view as one pass with both conditions.
\<close>

theorem filter_composition:
  assumes "X \<noteq> todas" and "Y \<noteq> todos"
  shows "apply_filters df X Y = filter (\<lambda>r. Area r = Some X \<and> Nivel r = Some Y) df
    \<and> apply_filters df X Y =
        filter (\<lambda>r. Nivel r = Some Y) (filter (\<lambda>r. Area r = Some X) df)
    \<and> apply_filters df X Y = apply_filters (apply_filters df X todos) todas Y
    \<and> subseq (apply_filters df X Y) df"
proof -
  have one: "apply_filters df X Y = filter (\<lambda>r. Area r = Some X \<and> Nivel r = Some Y) df"
    using assms by (rule apply_filters_both)
  have two: "apply_filters df X Y =
      filter (\<lambda>r. Nivel r = Some Y) (filter (\<lambda>r. Area r = Some X) df)"
    using assms by (simp add: apply_filters_def filter_area_def filter_nivel_def)
  have seq: "apply_filters df X Y = apply_filters (apply_filters df X todos) todas Y"
    by (simp add: apply_filters_def filter_area_def filter_nivel_def)
  show ?thesis using one two seq apply_filters_subseq [of df X Y] by simp
qed

theorem filter_composition_witness:
  "of_ascii ''A'' \<noteq> todas \<and> of_ascii ''Sr'' \<noteq> todos
   \<and> apply_filters (derive example_rows) (of_ascii ''A'') (of_ascii ''Sr'') =
       [derive_row (example_rows ! 1)]"
  using filter_composition [of "of_ascii ''A''" "of_ascii ''Sr''" "derive example_rows"]
  by (simp add: todas_def todos_def of_ascii_def derive_def derive_row_def example_rows_def)

text \<open>
  Claim C6. For every dataset of N rows the selection with both attributes at their
  sentinel is the identity: the filtered view is the N rows, unchanged and in the
  original order.
\<close>

theorem filter_identity:
  "apply_filters df todas todos = df \<and> length (apply_filters df todas todos) = length df"
  by (simp add: apply_filters_all)

theorem filter_identity_witness:
  "apply_filters (derive example_rows) todas todos = derive example_rows
   \<and> length (apply_filters (derive example_rows) todas todos) = 3"
  using filter_identity [of "derive example_rows"]
  by (simp add: derive_def example_rows_def)

subsection \<open>Column names\<close>
















subsection \<open>Aggregation over an empty view\<close>

lemma groupby_mean_Nil: "groupby_mean [] = []"
  by (simp add: groupby_mean_def List.map_filter_simps)

lemma melt_Nil: "melt [] = []"
  by (simp add: melt_def)

lemma vals_Nil: "vals [] = [Some 0, Some 0, Some 0, Some 0]"
  by (simp add: vals_def radar_dims_def)

lemma bars_widget_no_groups: "groupby_mean df_f = [] \<Longrightarrow> bars_widget df_f = PlotlyChart (Bar [])"
  by (simp add: bars_widget_def bars_fig_def bars_df_def melt_Nil)

lemma heatmap_widget_no_groups: "groupby_mean df_f = [] \<Longrightarrow> heatmap_widget df_f = Info no_heatmap_msg"
  by (simp add: heatmap_widget_def hm_df_def)

lemma render_empty:
  assumes "apply_filters df area_sel nivel_sel = []"
  shows "render df area_sel nivel_sel =
     [Selectbox (areas df), Selectbox (niveles df),
      Metric ENPSGlobal (Num (Some 0)),
      Metric PromedioGeneralKpi (Fixed (of_ascii ''0.00'')),
      Metric NRespuestas (Count 0),
      Markdown,
      PlotlyChart (Scatterpolar [Some 0, Some 0, Some 0, Some 0, Some 0]
        (map fst radar_dims @ [map fst radar_dims ! 0])),
      PlotlyChart (Bar []),
      Info no_heatmap_msg,
      PlotlyChart rag_fig,
      Dataframe [],
      Caption]"
  using assms
  by (simp add: render_def enps_global_def kpi_promedio_def radar_fig_def vals_Nil
      bars_widget_no_groups heatmap_widget_no_groups groupby_mean_Nil)

lemma dashboard_headers_empty:
  assumes "list_all (\<lambda>c. count_list (columns df) c = 1)
             (col_Area # col_Nivel # map fst radar_dims)"
    and "apply_filters (derive (rows df)) area_sel nivel_sel = []"
  shows "dashboard page df area_sel nivel_sel =
     Finished (page @ render (derive (rows df)) area_sel nivel_sel)"
proof -
  have once: "\<And>c. count_list (columns df) c = 1 \<Longrightarrow> c \<in> set (columns df)"
    by (metis count_list_0_iff zero_neq_one)
  have dims: "list_all (\<lambda>c. c \<in> set (columns df)) (map fst radar_dims)"
    using assms(1) once by (simp add: list_all_iff)
  have area: "col_Area \<in> set (columns df) \<and> \<not> 1 < count_list (columns df) col_Area"
    using assms(1) once by simp
  have nivel: "col_Nivel \<in> set (columns df) \<and> \<not> 1 < count_list (columns df) col_Nivel"
    using assms(1) once by simp
  show ?thesis
    using dims area nivel assms(2) by (simp add: dashboard_def)
qed

lemma dashboard_missing_header:
  "col_Area \<notin> set (columns df) \<Longrightarrow>
     \<exists>e. dashboard page df area_sel nivel_sel = Raised e page"
  by (simp add: dashboard_def)

text \<open>
  Claim C4. For every selection that matches zero rows of the dataset the run does not
  fail: it finishes with the eNPS KPI at 0, each of the four dimension means at 0 (not
  missing), a per-Area grouping with zero groups, and the no-data message in place of the
  heatmap. The dataset is a loaded sheet in which each header that this run looks up
  (Area, Nivel and the four dimensions) occurs once.
\<close>

theorem empty_filter_pipeline:
  assumes "load read_excel uploaded = Inr sh"
    and "list_all (\<lambda>c. count_list (columns sh) c = 1)
           (col_Area # col_Nivel # map fst radar_dims)"
    and "apply_filters (derive (rows sh)) area_sel nivel_sel = []"
  shows "enps_global (apply_filters (derive (rows sh)) area_sel nivel_sel) = 0
    \<and> vals (apply_filters (derive (rows sh)) area_sel nivel_sel) =
        [Some 0, Some 0, Some 0, Some 0]
    \<and> groupby_mean (apply_filters (derive (rows sh)) area_sel nivel_sel) = []
    \<and> heatmap_widget (apply_filters (derive (rows sh)) area_sel nivel_sel) =
        Info no_heatmap_msg
    \<and> script read_excel uploaded area_sel nivel_sel =
        Finished
          [Title, Caption, SidebarHeader, FileUploader,
           Selectbox (areas (derive (rows sh))), Selectbox (niveles (derive (rows sh))),
           Metric ENPSGlobal (Num (Some 0)),
           Metric PromedioGeneralKpi (Fixed (of_ascii ''0.00'')),
           Metric NRespuestas (Count 0),
           Markdown,
           PlotlyChart (Scatterpolar [Some 0, Some 0, Some 0, Some 0, Some 0]
             (map fst radar_dims @ [map fst radar_dims ! 0])),
           PlotlyChart (Bar []),
           Info no_heatmap_msg,
           PlotlyChart rag_fig,
           Dataframe [],
           Caption]"
proof -
  have kpi: "enps_global (apply_filters (derive (rows sh)) area_sel nivel_sel) = 0"
    using assms(3) by (simp add: enps_global_def)
  have dims: "vals (apply_filters (derive (rows sh)) area_sel nivel_sel) =
      [Some 0, Some 0, Some 0, Some 0]"
    using assms(3) by (simp add: vals_Nil)
  have grp: "groupby_mean (apply_filters (derive (rows sh)) area_sel nivel_sel) = []"
    using assms(3) by (simp add: groupby_mean_Nil)
  have hm: "heatmap_widget (apply_filters (derive (rows sh)) area_sel nivel_sel) =
      Info no_heatmap_msg"
    using grp by (rule heatmap_widget_no_groups)
  have "script read_excel uploaded area_sel nivel_sel =
      dashboard [Title, Caption, SidebarHeader, FileUploader] sh area_sel nivel_sel"
    using assms(1) by (simp add: script_def)
  then have run: "script read_excel uploaded area_sel nivel_sel =
      Finished ([Title, Caption, SidebarHeader, FileUploader]
        @ render (derive (rows sh)) area_sel nivel_sel)"
    using dashboard_headers_empty [OF assms(2) assms(3)] by simp
  show ?thesis
    using kpi dims grp hm run render_empty [OF assms(3)] by simp
qed

theorem empty_filter_pipeline_witness:
  "load example_reader None =
     Inr (example_sheet\<lparr>columns := map normalize_column (columns example_sheet)\<rparr>)
   \<and> map normalize_column (columns example_sheet) =
       col_Area # col_Nivel # map fst radar_dims @ [col_eNPS]
   \<and> list_all (\<lambda>c. count_list (map normalize_column (columns example_sheet)) c = 1)
        (col_Area # col_Nivel # map fst radar_dims)
   \<and> apply_filters (derive example_rows) (of_ascii ''B'') (of_ascii ''Sr'') = []
   \<and> of_ascii ''B'' \<in> set (areas (derive example_rows))
   \<and> of_ascii ''Sr'' \<in> set (niveles (derive example_rows))
   \<and> enps_global (apply_filters (derive example_rows) (of_ascii ''B'') (of_ascii ''Sr'')) = 0
   \<and> heatmap_widget (apply_filters (derive example_rows) (of_ascii ''B'') (of_ascii ''Sr''))
        = Info no_heatmap_msg
   \<and> script example_reader None (of_ascii ''B'') (of_ascii ''Sr'') =
        Finished
          [Title, Caption, SidebarHeader, FileUploader,
           Selectbox (areas (derive example_rows)), Selectbox (niveles (derive example_rows)),
           Metric ENPSGlobal (Num (Some 0)),
           Metric PromedioGeneralKpi (Fixed (of_ascii ''0.00'')),
           Metric NRespuestas (Count 0),
           Markdown,
           PlotlyChart (Scatterpolar [Some 0, Some 0, Some 0, Some 0, Some 0]
             (map fst radar_dims @ [map fst radar_dims ! 0])),
           PlotlyChart (Bar []),
           Info no_heatmap_msg,
           PlotlyChart rag_fig,
           Dataframe [],
           Caption]"
proof -
  have ld: "load example_reader None =
      Inr (example_sheet\<lparr>columns := map normalize_column (columns example_sheet)\<rparr>)"
    by (simp add: load_def load_data_def example_reader_def)
  have rw: "rows (example_sheet\<lparr>columns := map normalize_column (columns example_sheet)\<rparr>)
      = example_rows"
    by (simp add: example_sheet_def)
  have hdr: "map normalize_column (columns example_sheet) =
      col_Area # col_Nivel # map fst radar_dims @ [col_eNPS]"
    by (simp add: example_sheet_def normalize_column_def strip_def replace_space_def
        is_space_def radar_dims_def col_Area_def col_Nivel_def col_eNPS_def of_ascii_def)
  have once: "list_all (\<lambda>c. count_list (col_Area # col_Nivel # map fst radar_dims @ [col_eNPS]) c = 1)
      (col_Area # col_Nivel # map fst radar_dims)"
    by (simp add: radar_dims_def col_Area_def col_Nivel_def col_eNPS_def of_ascii_def)
  have cols: "list_all (\<lambda>c. count_list
        (columns (example_sheet\<lparr>columns := map normalize_column (columns example_sheet)\<rparr>)) c = 1)
      (col_Area # col_Nivel # map fst radar_dims)"
    using once by (simp add: hdr)
  have em: "apply_filters (derive example_rows) (of_ascii ''B'') (of_ascii ''Sr'') = []"
    by (simp add: apply_filters_def filter_area_def filter_nivel_def derive_def
        derive_row_def example_rows_def todas_def todos_def of_ascii_def)
  have opt: "of_ascii ''B'' \<in> set (areas (derive example_rows))
      \<and> of_ascii ''Sr'' \<in> set (niveles (derive example_rows))"
    by (simp add: areas_def niveles_def derive_def derive_row_def example_rows_def
        List.map_filter_simps of_ascii_def)
  have em': "apply_filters
      (derive (rows (example_sheet\<lparr>columns := map normalize_column (columns example_sheet)\<rparr>)))
      (of_ascii ''B'') (of_ascii ''Sr'') = []"
    using em by (simp add: rw)
  have res: "enps_global (apply_filters (derive example_rows) (of_ascii ''B'') (of_ascii ''Sr'')) = 0
    \<and> heatmap_widget (apply_filters (derive example_rows) (of_ascii ''B'') (of_ascii ''Sr''))
        = Info no_heatmap_msg
    \<and> script example_reader None (of_ascii ''B'') (of_ascii ''Sr'') =
        Finished
          [Title, Caption, SidebarHeader, FileUploader,
           Selectbox (areas (derive example_rows)), Selectbox (niveles (derive example_rows)),
           Metric ENPSGlobal (Num (Some 0)),
           Metric PromedioGeneralKpi (Fixed (of_ascii ''0.00'')),
           Metric NRespuestas (Count 0),
           Markdown,
           PlotlyChart (Scatterpolar [Some 0, Some 0, Some 0, Some 0, Some 0]
             (map fst radar_dims @ [map fst radar_dims ! 0])),
           PlotlyChart (Bar []),
           Info no_heatmap_msg,
           PlotlyChart rag_fig,
           Dataframe [],
           Caption]"
    using empty_filter_pipeline [OF ld cols em'] by (simp only: rw)
  show ?thesis
    using ld hdr once em opt res by (simp only: hdr)
qed

text \<open>
  Claim C8, as stated, fails: over an empty view the heatmap is replaced by the no-data
  message, and the grouped bar chart is not.
\<close>

theorem bars_placeholder_counterexample:
  "is_placeholder (heatmap_widget []) \<and> \<not> is_placeholder (bars_widget [])"
  by (simp add: heatmap_widget_def hm_df_def groupby_mean_Nil bars_widget_def)

text \<open>
  Claim C8, amended. When the filtered view is empty the per-Area grouping has zero
  groups, and whenever it has zero groups the grouped bar chart is still rendered, as a
  chart with no bars built from the empty frame; the heatmap alone is replaced by the
  no-data message.
\<close>

theorem bars_empty_chart:
  "(df_f = [] \<longrightarrow> groupby_mean df_f = [])
   \<and> (groupby_mean df_f = [] \<longrightarrow>
        bars_widget df_f = PlotlyChart (Bar []) \<and> \<not> is_placeholder (bars_widget df_f)
        \<and> heatmap_widget df_f = Info no_heatmap_msg)"
  using groupby_mean_Nil bars_widget_no_groups [of df_f] heatmap_widget_no_groups [of df_f]
  by auto

theorem bars_empty_chart_witness:
  "groupby_mean [] = [] \<and> bars_widget [] = PlotlyChart (Bar [])
   \<and> heatmap_widget [] = Info no_heatmap_msg"
  using bars_empty_chart [of "[]"] by simp

subsection \<open>Load failures\<close>

lemma load_data_fails: "read_excel file = Inl e \<Longrightarrow> load_data read_excel file = Inl e"
  by (simp add: load_data_def)

lemma script_stops:
  "load read_excel uploaded = Inl e \<Longrightarrow>
     script read_excel uploaded area_sel nivel_sel =
       Stopped [Title, Caption, SidebarHeader, FileUploader, Error load_error_msg]"
  by (simp add: script_def)

lemma script_reads_upload_only:
  "read_excel (UploadedFile f) = read_other (UploadedFile f) \<Longrightarrow>
     script read_excel (Some f) area_sel nivel_sel =
       script read_other (Some f) area_sel nivel_sel"
  by (simp add: script_def load_def load_data_def)

text \<open>
  Claim C7. When the read of the data source fails, the exception is caught once at the
  top level: the run shows the one static error message and halts, so no chart, KPI or
  table is rendered. An uploaded source is read instead of the default path, which is
  read only when there is no upload.
\<close>

theorem load_failure_halts:
  "(read_excel (UploadedFile f) = Inl e \<longrightarrow>
      script read_excel (Some f) area_sel nivel_sel =
        Stopped [Title, Caption, SidebarHeader, FileUploader, Error load_error_msg])
   \<and> (read_excel (FilePath default_path) = Inl e \<longrightarrow>
      script read_excel None area_sel nivel_sel =
        Stopped [Title, Caption, SidebarHeader, FileUploader, Error load_error_msg])
   \<and> \<not> list_ex is_data_widget
        [Title, Caption, SidebarHeader, FileUploader, Error load_error_msg]
   \<and> load read_excel (Some f) = load_data read_excel (UploadedFile f)
   \<and> load read_excel None = load_data read_excel (FilePath default_path)
   \<and> (read_excel (UploadedFile f) = read_other (UploadedFile f) \<longrightarrow>
        script read_excel (Some f) area_sel nivel_sel =
          script read_other (Some f) area_sel nivel_sel)"
proof -
  have up: "read_excel (UploadedFile f) = Inl e \<longrightarrow>
      script read_excel (Some f) area_sel nivel_sel =
        Stopped [Title, Caption, SidebarHeader, FileUploader, Error load_error_msg]"
  proof
    assume "read_excel (UploadedFile f) = Inl e"
    then have "load read_excel (Some f) = Inl e"
      by (simp add: load_def load_data_fails)
    then show "script read_excel (Some f) area_sel nivel_sel =
        Stopped [Title, Caption, SidebarHeader, FileUploader, Error load_error_msg]"
      by (rule script_stops)
  qed
  have dflt: "read_excel (FilePath default_path) = Inl e \<longrightarrow>
      script read_excel None area_sel nivel_sel =
        Stopped [Title, Caption, SidebarHeader, FileUploader, Error load_error_msg]"
  proof
    assume "read_excel (FilePath default_path) = Inl e"
    then have "load read_excel None = Inl e"
      by (simp add: load_def load_data_fails)
    then show "script read_excel None area_sel nivel_sel =
        Stopped [Title, Caption, SidebarHeader, FileUploader, Error load_error_msg]"
      by (rule script_stops)
  qed
  have nodata: "\<not> list_ex is_data_widget
      [Title, Caption, SidebarHeader, FileUploader, Error load_error_msg]"
    by simp
  have src: "load read_excel (Some f) = load_data read_excel (UploadedFile f)
      \<and> load read_excel None = load_data read_excel (FilePath default_path)"
    by (simp add: load_def)
  show ?thesis
    using up dflt nodata src script_reads_upload_only [of read_excel f read_other]
    by blast
qed

theorem load_failure_halts_witness:
  "example_reader (UploadedFile [80, 75]) = Inl BadZipFile
   \<and> example_reader (FilePath default_path) = Inr example_sheet
   \<and> script example_reader (Some [80, 75]) todas todos =
       Stopped [Title, Caption, SidebarHeader, FileUploader, Error load_error_msg]"
  using load_failure_halts [of example_reader "[80, 75]" BadZipFile todas todos]
  by (simp add: example_reader_def)

subsection \<open>Dimension means of a non-empty view\<close>

lemma count_true_zero_iff:
  "count_true (map (\<lambda>v. v \<noteq> None) vs) = 0 \<longleftrightarrow> list_all (\<lambda>v. v = None) vs"
  by (induction vs) (auto simp: count_true_def)

lemma nanmean_None_iff: "nanmean vs = None \<longleftrightarrow> list_all (\<lambda>v. v = None) vs"
  by (simp add: nanmean_def Let_def count_true_zero_iff del: not_None_eq)

lemma vals_nth:
  "i < length radar_dims \<Longrightarrow>
     vals df_f ! i =
       (if df_f \<noteq> [] then nanmean (map (snd (radar_dims ! i)) df_f) else Some 0)"
  by (simp add: vals_def split_beta)

text \<open>
  Claim C10. If the filtered view is not empty and one of the four dimension columns is
  entirely missing within it, the mean shown for that dimension is missing, not 0: the
  default 0 is used only when the view has zero rows.
\<close>

theorem missing_dimension_mean:
  assumes "i < length radar_dims"
  shows "(df_f \<noteq> [] \<longrightarrow> vals df_f ! i = nanmean (map (snd (radar_dims ! i)) df_f))
    \<and> (df_f \<noteq> [] \<longrightarrow>
         (vals df_f ! i = None \<longleftrightarrow> list_all (\<lambda>r. snd (radar_dims ! i) r = None) df_f))
    \<and> vals [] ! i = Some 0
    \<and> radar_fig df_f =
        Scatterpolar (vals df_f @ [vals df_f ! 0])
          (map fst radar_dims @ [map fst radar_dims ! 0])"
proof -
  have mean: "df_f \<noteq> [] \<longrightarrow> vals df_f ! i = nanmean (map (snd (radar_dims ! i)) df_f)"
    using assms by (simp add: vals_nth)
  have "nanmean (map (snd (radar_dims ! i)) df_f) = None
      \<longleftrightarrow> list_all (\<lambda>r. snd (radar_dims ! i) r = None) df_f"
    by (simp add: nanmean_None_iff list_all_iff)
  then have miss: "df_f \<noteq> [] \<longrightarrow>
      (vals df_f ! i = None \<longleftrightarrow> list_all (\<lambda>r. snd (radar_dims ! i) r = None) df_f)"
    using mean by simp
  have dflt: "vals [] ! i = Some 0"
    using assms by (simp add: vals_nth)
  show ?thesis using mean miss dflt by (simp add: radar_fig_def)
qed

theorem missing_dimension_mean_witness:
  "(0::nat) < length radar_dims
   \<and> snd (radar_dims ! 0) = Agilidad
   \<and> vals [\<lparr>Area = Some (of_ascii ''A''), Nivel = None, Agilidad = None,
             Empoderamiento = Some 3, MentalidadDatos = Some 3, CorajeInnovar = Some 3,
             eNPS = None, PromedioGeneral = Some 3\<rparr>] ! 0 = None"
proof -
  have len: "(0::nat) < length radar_dims"
    by (simp add: radar_dims_def)
  have col: "snd (radar_dims ! 0) = Agilidad"
    by (simp add: radar_dims_def)
  show ?thesis
    using missing_dimension_mean [OF len,
        of "[\<lparr>Area = Some (of_ascii ''A''), Nivel = None, Agilidad = None,
             Empoderamiento = Some 3, MentalidadDatos = Some 3, CorajeInnovar = Some 3,
             eNPS = None, PromedioGeneral = Some 3\<rparr>]"] len col
    by (simp add: nanmean_def count_true_def)
qed

end
